theory Spec2Isabelle
  imports Main
begin

section \<open>JavaScript values\<close>

text \<open>
  The driver \<^verbatim>\<open>packages/lib/file-api-driver-minio.js\<close> is JavaScript: failure values,
  options and transport replies have no static shape. They are modelled by a small
  universe of values. Numbers are integers here (no fractions, no NaN); functions and
  symbols are left out, so a property \<^verbatim>\<open>indexOf\<close> exists on strings and arrays only.
\<close>

datatype jsval =
    JUndefined
  | JNull
  | JBool bool
  | JNum int
  | JStr string
  | JDate int
  | JArr "jsval list"
  | JObj "(string \<times> jsval) list"

text \<open>What a \<^verbatim>\<open>throw\<close> can carry: a value (of the transport, of the fetch facility or
  built by the driver), the TypeError of the runtime (a property read on
  \<^verbatim>\<open>undefined\<close>/\<^verbatim>\<open>null\<close>, a call of something that is not a function), and the
  \<^verbatim>\<open>JoplinError(message, code)\<close> of the application.\<close>

datatype js_throw =
    Value jsval
  | TypeError
  | JoplinError string string

datatype 'a outcome =
    Returns 'a
  | Throws js_throw

definition obind :: "'a outcome \<Rightarrow> ('a \<Rightarrow> 'b outcome) \<Rightarrow> 'b outcome" where
  "obind m f = (case m of Returns v \<Rightarrow> f v | Throws e \<Rightarrow> Throws e)"

text \<open>ToBoolean: \<^verbatim>\<open>if (v)\<close>, \<^verbatim>\<open>!v\<close>, \<^verbatim>\<open>v || d\<close>.\<close>

fun truthy :: "jsval \<Rightarrow> bool" where
  "truthy JUndefined = False"
| "truthy JNull = False"
| "truthy (JBool b) = b"
| "truthy (JNum n) = (n \<noteq> 0)"
| "truthy (JStr s) = (s \<noteq> [])"
| "truthy (JDate t) = True"
| "truthy (JArr xs) = True"
| "truthy (JObj fs) = True"

text \<open>
  A property read \<^verbatim>\<open>v.k\<close> or \<^verbatim>\<open>v['k']\<close>. It is used for the keys
  \<^verbatim>\<open>name\<close>, \<^verbatim>\<open>code\<close>, \<^verbatim>\<open>Code\<close>, \<^verbatim>\<open>message\<close>, \<^verbatim>\<open>output\<close>, \<^verbatim>\<open>Error\<close>,
  \<^verbatim>\<open>lastModified\<close>, \<^verbatim>\<open>responseFormat\<close> and \<^verbatim>\<open>target\<close> only, none of which a
  string, number, boolean, date or array has: there the read gives \<^verbatim>\<open>undefined\<close>.
  On \<^verbatim>\<open>undefined\<close> and \<^verbatim>\<open>null\<close> the read throws a TypeError.
\<close>

fun field :: "jsval \<Rightarrow> string \<Rightarrow> jsval" where
  "field (JObj fs) k = (case map_of fs k of Some v \<Rightarrow> v | None \<Rightarrow> JUndefined)"
| "field v k = JUndefined"

fun get_field :: "jsval \<Rightarrow> string \<Rightarrow> jsval outcome" where
  "get_field JUndefined k = Throws TypeError"
| "get_field JNull k = Throws TypeError"
| "get_field v k = Returns (field v k)"

text \<open>\<^verbatim>\<open>String.prototype.indexOf\<close>: the first position at which the pattern starts,
  or -1.\<close>

fun str_indexOf :: "string \<Rightarrow> string \<Rightarrow> int" where
  "str_indexOf [] pat = (if pat = [] then 0 else -1)"
| "str_indexOf (c # cs) pat =
     (if take (length pat) (c # cs) = pat then 0
      else (let i = str_indexOf cs pat in if i < 0 then -1 else i + 1))"

text \<open>\<^verbatim>\<open>Array.prototype.indexOf\<close>: the first position of an element strictly equal to
  the one sought (a string here), or -1.\<close>

fun arr_indexOf :: "jsval list \<Rightarrow> jsval \<Rightarrow> int" where
  "arr_indexOf [] x = -1"
| "arr_indexOf (y # ys) x =
     (if y = x then 0
      else (let i = arr_indexOf ys x in if i < 0 then -1 else i + 1))"

text \<open>The method call \<^verbatim>\<open>v.indexOf(errorCode)\<close> on a value that passed the
  \<^verbatim>\<open>if (v)\<close> test: anything but a string or an array has no such method, and the
  call throws.\<close>

fun indexOf :: "jsval \<Rightarrow> string \<Rightarrow> int outcome" where
  "indexOf (JStr s) pat = Returns (str_indexOf s pat)"
| "indexOf (JArr xs) pat = Returns (arr_indexOf xs (JStr pat))"
| "indexOf v pat = Throws TypeError"

section \<open>Path normalisation and error classification\<close>

text \<open>The methods whose JavaScript names end in an underscore (\<^verbatim>\<open>makePath_\<close>,
  \<^verbatim>\<open>hasErrorCode_\<close>, \<^verbatim>\<open>metadataToStat_\<close>, \<^verbatim>\<open>metadataToStats_\<close>) lose it here: a
  name of the logic cannot end in one.

  A path argument is a string or absent (\<^verbatim>\<open>undefined\<close>, \<^verbatim>\<open>null\<close>): \<open>None\<close>.
  \<^verbatim>\<open>makePath_\<close>: \<^verbatim>\<open>if (!path) return ''; return path;\<close>\<close>

fun makePath :: "string option \<Rightarrow> string" where
  "makePath None = []"
| "makePath (Some p) = (if p = [] then [] else p)"

text \<open>\<^verbatim>\<open>hasErrorCode_(error, errorCode)\<close>: the first truthy one of \<^verbatim>\<open>name\<close>,
  \<^verbatim>\<open>code\<close>, \<^verbatim>\<open>Code\<close> decides, by \<^verbatim>\<open>indexOf(errorCode) >= 0\<close>.\<close>

definition hasErrorCode :: "jsval \<Rightarrow> string \<Rightarrow> bool outcome" where
  "hasErrorCode error errorCode =
     (if \<not> truthy error then Returns False
      else if truthy (field error ''name'') then
        obind (indexOf (field error ''name'') errorCode) (\<lambda>i. Returns (i \<ge> 0))
      else if truthy (field error ''code'') then
        obind (indexOf (field error ''code'') errorCode) (\<lambda>i. Returns (i \<ge> 0))
      else if truthy (field error ''Code'') then
        obind (indexOf (field error ''Code'') errorCode) (\<lambda>i. Returns (i \<ge> 0))
      else Returns False)"

section \<open>The Stat Translator\<close>

record file_status =
  path :: string
  updated_time :: "int option"
  isDeleted :: bool
  isDir :: bool

text \<open>Modelled from the spec: \<^verbatim>\<open>basename\<close> of \<^verbatim>\<open>./path-utils\<close> is imported by the
  driver and is not among the sources. The spec's words are that the displayed path
  is reduced to its final path segment (basename); they do not say what the helper
  does with a path that has no segment. The helper of the application throws an
  \<^verbatim>\<open>Error\<close> (\<^verbatim>\<open>Path is empty\<close>) on an empty path, and it separates at a slash and
  at a backslash (\<open>CHR 0x5C\<close>); the definition does the same. It is one value of the
  parameter \<open>bn\<close> of the translator below: what is proved of the translator for
  every \<open>bn\<close> does not rest on it.\<close>

definition basename :: "string \<Rightarrow> jsval + string" where
  "basename p =
     (if p = [] then Inl (JObj [(''name'', JStr ''Error''), (''message'', JStr ''Path is empty'')])
      else Inr (rev (takeWhile (\<lambda>c. c \<noteq> CHR ''/'' \<and> c \<noteq> CHR 0x5C) (rev p))))"

text \<open>\<^verbatim>\<open>metadataToStat_(md, path)\<close>. The imported helper is the parameter \<open>bn\<close>
  (\<open>Inl\<close>: what it throws); the call \<^verbatim>\<open>basename(path)\<close> is the first statement and
  stands in no \<^verbatim>\<open>try\<close>, so the method throws what the helper throws. Two things of
  the runtime are parameters as well: \<open>getTime v\<close> is \<^verbatim>\<open>new Date(v).getTime()\<close>
  (\<open>None\<close> for the NaN of an invalid date), and \<open>now\<close> is
  \<^verbatim>\<open>new Date().getTime()\<close>, the clock when the method runs. \<open>updated_time\<close> is
  \<open>None\<close> for NaN.\<close>

definition metadataToStat ::
  "(string \<Rightarrow> jsval + string) \<Rightarrow> (jsval \<Rightarrow> int option) \<Rightarrow> int \<Rightarrow> jsval \<Rightarrow> string
     \<Rightarrow> jsval + file_status" where
  "metadataToStat bn getTime now md p =
     (case bn p of
        Inl e \<Rightarrow> Inl e
      | Inr relativePath \<Rightarrow>
          (let lastModifiedDate =
                 (if truthy md then
                    (if truthy (field md ''lastModified'')
                     then getTime (field md ''lastModified'')
                     else Some now)
                  else Some now);
               deleted = (if truthy md then False else True)
           in Inr \<lparr>path = relativePath, updated_time = lastModifiedDate,
                   isDeleted = deleted, isDir = False\<rparr>))"

text \<open>\<^verbatim>\<open>metadataToStats_(mds)\<close>: the loop calls
  \<^verbatim>\<open>metadataToStat_(mds[i], mds[i])\<close>, the same element as metadata and as path. Its
  only caller passes the object names that \<^verbatim>\<open>listObjects\<close> collected, so the
  elements are strings. \<open>clock i\<close> is the clock during iteration \<open>i\<close>.\<close>

fun metadataToStats ::
  "(string \<Rightarrow> jsval + string) \<Rightarrow> (jsval \<Rightarrow> int option) \<Rightarrow> (nat \<Rightarrow> int) \<Rightarrow> nat
     \<Rightarrow> string list \<Rightarrow> jsval + file_status list" where
  "metadataToStats bn getTime clock i [] = Inr []"
| "metadataToStats bn getTime clock i (m # mds) =
     (case metadataToStat bn getTime (clock i) (JStr m) m of
        Inl e \<Rightarrow> Inl e
      | Inr st \<Rightarrow>
          (case metadataToStats bn getTime clock (Suc i) mds of
             Inl e \<Rightarrow> Inl e
           | Inr output \<Rightarrow> Inr (st # output)))"

section \<open>The transport, the fetch facility and the runtime\<close>

text \<open>What the stream of \<^verbatim>\<open>listObjectsV2\<close> emits on \<^verbatim>\<open>data\<close>.\<close>

record object_info =
  obj_name :: string
  obj_lastModified :: jsval

text \<open>The response of \<^verbatim>\<open>shim.fetch\<close>: \<^verbatim>\<open>ok\<close>, \<^verbatim>\<open>statusText\<close> and the promise of
  \<^verbatim>\<open>text()\<close> (\<open>Inl\<close>: rejected).\<close>

record response =
  resp_ok :: bool
  resp_statusText :: jsval
  resp_text :: "jsval + jsval"

text \<open>
  Everything outside the driver is a parameter. A callback-style call of the client
  is the pair \<open>(error, response)\<close> its callback receives; a promise is a sum, \<open>Inl\<close>
  the rejection. A stream is the objects of its \<^verbatim>\<open>data\<close> events and the value of
  its \<^verbatim>\<open>error\<close> event if it has one (\<^verbatim>\<open>end\<close> otherwise). \<open>api_removeObjects\<close>
  also receives the batches submitted before, so that the reply to a batch may depend
  on the earlier ones. \<open>api_listObjectsV2\<close> is the one listing method of the client:
  it takes the bucket, the prefix, the recursive flag and the start marker, and returns
  the stream. \<open>parser_parse\<close> is \<^verbatim>\<open>parse\<close> of fast-xml-parser, \<open>path_basename\<close> the
  imported \<^verbatim>\<open>basename\<close>.
\<close>

record env =
  bucket :: string
  api_presignedUrl :: "string \<Rightarrow> string \<Rightarrow> string \<Rightarrow> nat \<Rightarrow> jsval \<times> jsval"
  api_listObjectsV2 :: "string \<Rightarrow> string \<Rightarrow> bool \<Rightarrow> string \<Rightarrow> object_info list \<times> jsval option"
  api_statObject :: "string \<Rightarrow> string \<Rightarrow> jsval \<times> jsval"
  api_copyObject :: "string \<Rightarrow> string \<Rightarrow> string \<Rightarrow> jsval \<times> jsval"
  api_removeObject :: "string \<Rightarrow> string \<Rightarrow> jsval \<times> jsval"
  api_removeObjects :: "jsval list list \<Rightarrow> string \<Rightarrow> jsval list \<Rightarrow> jsval \<times> jsval"
  shim_fetch :: "jsval \<Rightarrow> jsval \<Rightarrow> jsval + response"
  shim_fetchBlob :: "jsval \<Rightarrow> jsval \<Rightarrow> jsval + jsval"
  parser_parse :: "jsval \<Rightarrow> jsval outcome"
  path_basename :: "string \<Rightarrow> jsval + string"
  date_getTime :: "jsval \<Rightarrow> int option"
  clock :: "nat \<Rightarrow> int"

text \<open>The calls that leave the driver, in the order they are made.\<close>

datatype call =
    PresignedUrl string string string nat
  | Fetch jsval jsval
  | FetchBlob jsval jsval
  | ListObjectsV2 string string bool string
  | StatObject string string
  | CopyObject string string string
  | RemoveObject string string
  | RemoveObjects string "jsval list"

text \<open>The wrapper every callback-style call gets:
  \<^verbatim>\<open>(error, response) => { if (error) reject(error); else resolve(response); }\<close>\<close>

definition promisify :: "jsval \<times> jsval \<Rightarrow> jsval + jsval" where
  "promisify cb = (case cb of (error, response) \<Rightarrow>
     if truthy error then Inl error else Inr response)"


definition presignedUrl :: "env \<Rightarrow> string \<Rightarrow> jsval + jsval" where
  "presignedUrl env key = promisify (api_presignedUrl env ''GET'' (bucket env) key 3600)"

text \<open>\<^verbatim>\<open>listObjects(key)\<close>: \<^verbatim>\<open>obj.name\<close> of every \<^verbatim>\<open>data\<close> event is collected;
  \<^verbatim>\<open>error\<close> rejects, \<^verbatim>\<open>end\<close> resolves with the names.\<close>

definition listObjects :: "env \<Rightarrow> string \<Rightarrow> jsval + string list" where
  "listObjects env key =
     (case api_listObjectsV2 env (bucket env) key True [] of
        (objs, Some e) \<Rightarrow> Inl e
      | (objs, None) \<Rightarrow> Inr (map obj_name objs))"



section \<open>The driver\<close>

text \<open>Every asynchronous method is modelled by the outcome of its promise and the calls
  it made. \<^verbatim>\<open>catch (error) { if (hasErrorCode_(error, code)) { /* ignore */ } else
  throw error; }\<close> is written once: \<close>

definition ignoring :: "string \<Rightarrow> jsval \<Rightarrow> unit outcome" where
  "ignoring code error =
     obind (hasErrorCode error code) (\<lambda>b. if b then Returns () else Throws (Value error))"

text \<open>\<^verbatim>\<open>stat(path)\<close>: the absent result (\<^verbatim>\<open>undefined\<close>, the method falls off its end)
  is \<open>None\<close>. \<^verbatim>\<open>basename\<close> is applied to the path itself, so the path is a string.
  \<open>stat_catch\<close> is the \<^verbatim>\<open>catch\<close> block; the \<^verbatim>\<open>try\<close> block holds the lookup and the
  translation.\<close>

definition stat_catch :: "jsval \<Rightarrow> file_status option outcome" where
  "stat_catch error = obind (ignoring ''NotFound'' error) (\<lambda>u. Returns None)"

definition stat :: "env \<Rightarrow> string \<Rightarrow> file_status option outcome \<times> call list" where
  "stat env p =
     (case promisify (api_statObject env (bucket env) (makePath (Some p))) of
        Inl error \<Rightarrow> stat_catch error
      | Inr metadata \<Rightarrow>
          (case metadataToStat (path_basename env) (date_getTime env) (clock env 0)
                  metadata p of
             Inl error \<Rightarrow> stat_catch error
           | Inr st \<Rightarrow> Returns (Some st)),
      [StatObject (bucket env) (makePath (Some p))])"

record listing =
  items :: "file_status list"
  hasMore :: bool
  listing_context :: jsval

text \<open>\<^verbatim>\<open>list(path)\<close>. \<^verbatim>\<open>listObjects\<close> resolves with an array or rejects, so the test
  \<^verbatim>\<open>objs === undefined\<close> never holds.\<close>

definition list :: "env \<Rightarrow> string option \<Rightarrow> listing outcome \<times> call list" where
  "list env p =
     (let prefixPath = makePath p;
          pathLen = length prefixPath;
          prefixPath =
            (if pathLen > 0 \<and> prefixPath ! (pathLen - 1) \<noteq> CHR ''/''
             then prefixPath @ ''/'' else prefixPath)
      in (case listObjects env prefixPath of
            Inl e \<Rightarrow> Throws (Value e)
          | Inr objs \<Rightarrow>
              (case metadataToStats (path_basename env) (date_getTime env) (clock env) 0
                      objs of
                 Inl e \<Rightarrow> Throws (Value e)
               | Inr output \<Rightarrow>
                   Returns \<lparr>items = output, hasMore = False, listing_context = JObj []\<rparr>),
          [ListObjectsV2 (bucket env) prefixPath True []]))"

text \<open>\<^verbatim>\<open>get(path, options)\<close>, the \<^verbatim>\<open>try\<close> block (lines 195 to 213): what it returns
  (\<open>Inr\<close>) or throws (\<open>Inl\<close>).\<close>

definition get_try ::
  "env \<Rightarrow> string \<Rightarrow> jsval \<Rightarrow> jsval \<Rightarrow> (jsval + jsval) \<times> call list" where
  "get_try env remotePath options responseFormat =
     (case presignedUrl env remotePath of
        Inl e \<Rightarrow> (Inl e, [PresignedUrl ''GET'' (bucket env) remotePath 3600])
      | Inr s3Url \<Rightarrow>
          if field options ''target'' = JStr ''file'' then
            (shim_fetchBlob env s3Url options,
             [PresignedUrl ''GET'' (bucket env) remotePath 3600, FetchBlob s3Url options])
          else if responseFormat = JStr ''text'' then
            (case shim_fetch env s3Url options of
               Inl e \<Rightarrow> Inl e
             | Inr response \<Rightarrow>
                 (case resp_text response of
                    Inl e \<Rightarrow> Inl e
                  | Inr output \<Rightarrow>
                      if \<not> resp_ok response
                      then Inl (JObj [(''name'', resp_statusText response), (''output'', output)])
                      else Inr output),
             [PresignedUrl ''GET'' (bucket env) remotePath 3600, Fetch s3Url options])
          else (Inr JNull, [PresignedUrl ''GET'' (bucket env) remotePath 3600]))"

text \<open>The \<^verbatim>\<open>catch\<close> block (lines 214 to 243). After the three tests on the parsed
  body nothing is thrown or returned: the method falls off its end and its promise
  resolves with \<^verbatim>\<open>undefined\<close>. The inner \<^verbatim>\<open>if (error.output)\<close> of the last
  \<^verbatim>\<open>else\<close> is kept as written.\<close>

definition get_catch :: "env \<Rightarrow> jsval \<Rightarrow> jsval outcome" where
  "get_catch env error =
     obind (get_field error ''name'') (\<lambda>name.
       if name = JStr ''FetchError'' then Throws (Value (field error ''message''))
       else if truthy (field error ''output'') then
         obind (parser_parse env (field error ''output'')) (\<lambda>parsedOutput.
         obind (get_field parsedOutput ''Error'') (\<lambda>parsedError.
         obind (hasErrorCode parsedError ''AuthorizationHeaderMalformed'') (\<lambda>malformed.
           if malformed then Throws (Value (field error ''output''))
           else obind (hasErrorCode parsedError ''NoSuchKey'') (\<lambda>noSuchKey.
             if noSuchKey then Returns JNull
             else obind (hasErrorCode parsedError ''AccessDenied'') (\<lambda>denied.
               if denied
               then Throws (JoplinError ''Do not have proper permissions to Bucket''
                                        ''rejectedByTarget'')
               else Returns JUndefined)))))
       else (if truthy (field error ''output'') then Throws (Value (field error ''output''))
             else Throws (Value error)))"

definition get :: "env \<Rightarrow> string option \<Rightarrow> jsval \<Rightarrow> jsval outcome \<times> call list" where
  "get env p options =
     (let remotePath = makePath p;
          options = (if \<not> truthy options then JObj [] else options);
          responseFormat =
            (if truthy (field options ''responseFormat'') then field options ''responseFormat''
             else JStr ''text'')
      in case get_try env remotePath options responseFormat of
           (Inr output, calls) \<Rightarrow> (Returns output, calls)
         | (Inl error, calls) \<Rightarrow> (get_catch env error, calls))"







text \<open>\<^verbatim>\<open>clearRoot()\<close>, first the lines after the \<^verbatim>\<open>await\<close> (343 to 346), on the
  response that \<^verbatim>\<open>listRecursive\<close> would resolve with. A value the runtime treats as
  an object takes the assignment \<^verbatim>\<open>response.Contents = []\<close>; on a string, number or
  boolean it has no effect. \<^verbatim>\<open>Contents.map\<close> exists on arrays only.
  \<^verbatim>\<open>this.removeObjects(keys)\<close> is called once, with the names as they are, and its
  promise is dropped.\<close>

fun is_object :: "jsval \<Rightarrow> bool" where
  "is_object (JObj fs) = True"
| "is_object (JArr xs) = True"
| "is_object (JDate t) = True"
| "is_object v = False"

fun content_names :: "jsval list \<Rightarrow> jsval list outcome" where
  "content_names [] = Returns []"
| "content_names (c # cs) =
     obind (get_field c ''name'') (\<lambda>n.
     obind (content_names cs) (\<lambda>ns. Returns (n # ns)))"

definition clearRoot_after_listing :: "env \<Rightarrow> jsval \<Rightarrow> unit outcome \<times> call list" where
  "clearRoot_after_listing env response =
     (case obind (get_field response ''Contents'') (\<lambda>contents.
             case (if contents = JUndefined \<and> is_object response then JArr []
                   else contents) of
               JArr cs \<Rightarrow> content_names cs
             | other \<Rightarrow> Throws TypeError) of
        Throws x \<Rightarrow> (Throws x, [])
      | Returns keys \<Rightarrow> (Returns (), [RemoveObjects (bucket env) keys]))"

text \<open>
  \<^verbatim>\<open>listRecursive\<close> (lines 332 to 340): the promise is settled by the callback
  that is handed to \<^verbatim>\<open>listObjectsV2\<close> as a fifth argument, and by nothing else. The
  client's method has four parameters and answers through the stream it returns
  (\<^verbatim>\<open>listObjects\<close>, line 60, uses it so): the fifth argument is not called, nobody
  listens to the stream, and the promise stays pending. A promise that never settles
  is \<open>None\<close>.
\<close>

definition listRecursive :: "env \<Rightarrow> (jsval + jsval) option \<times> call list" where
  "listRecursive env =
     (case api_listObjectsV2 env (bucket env) [] True [] of
        stream \<Rightarrow> (None, [ListObjectsV2 (bucket env) [] True []]))"

text \<open>\<^verbatim>\<open>clearRoot()\<close>: \<open>None\<close> when its promise never settles.\<close>

definition clearRoot :: "env \<Rightarrow> unit outcome option \<times> call list" where
  "clearRoot env =
     (case listRecursive env of
        (None, calls) \<Rightarrow> (None, calls)
      | (Some (Inl e), calls) \<Rightarrow> (Some (Throws (Value e)), calls)
      | (Some (Inr response), calls) \<Rightarrow>
          (case clearRoot_after_listing env response of
             (r, calls') \<Rightarrow> (Some r, calls @ calls')))"

section \<open>Notions used in the statements\<close>

text \<open>A transport on which every call succeeds, with a bucket \<^verbatim>\<open>notes\<close>, a fetch that
  answers \<^verbatim>\<open>content\<close>, a parser that finds no element, the helper \<open>basename\<close>, dates
  read from date and number values, and a clock that starts at 5000. The concrete
  instances below change single fields of it.\<close>

definition calm_env :: env where
  "calm_env =
     \<lparr>bucket = ''notes'',
      api_presignedUrl = (\<lambda>m b k t. (JNull, JStr (''https://minio.test/'' @ b @ ''/'' @ k))),
      api_listObjectsV2 = (\<lambda>b k r s. ([], None)),
      api_statObject = (\<lambda>b k. (JNull, JObj [(''lastModified'', JDate 1000)])),
      api_copyObject = (\<lambda>b k n. (JNull, JObj [])),
      api_removeObject = (\<lambda>b k. (JNull, JUndefined)),
      api_removeObjects = (\<lambda>earlier b ks. (JNull, JArr [])),
      shim_fetch = (\<lambda>u opts. Inr \<lparr>resp_ok = True, resp_statusText = JStr ''OK'',
                                   resp_text = Inr (JStr ''content'')\<rparr>),
      shim_fetchBlob = (\<lambda>u opts. Inr (JObj [])),
      parser_parse = (\<lambda>v. Returns (JObj [])),
      path_basename = basename,
      date_getTime = (\<lambda>v. case v of JDate t \<Rightarrow> Some t | JNum n \<Rightarrow> Some n | _ \<Rightarrow> None),
      clock = (\<lambda>i. 5000 + int i)\<rparr>"

text \<open>\<open>calm_env\<close> with one thing changed: the metadata lookup, the copy or the
  removal of one object fails with \<open>e\<close>; the batch removal that comes after \<open>k\<close>
  others fails with \<open>e\<close>; the listing stream emits \<open>objs\<close>; the fetch answers a response that is not
  \<^verbatim>\<open>ok\<close>, with a status text and a body that the parser reads as \<open>parsed\<close>.\<close>

definition stat_fails_with :: "jsval \<Rightarrow> env" where
  "stat_fails_with e = calm_env\<lparr>api_statObject := \<lambda>b k. (e, JUndefined)\<rparr>"




definition store_listing :: "object_info list \<Rightarrow> env" where
  "store_listing objs = calm_env\<lparr>api_listObjectsV2 := \<lambda>b k r s. (objs, None)\<rparr>"

definition fetch_not_ok :: "string \<Rightarrow> string \<Rightarrow> jsval \<Rightarrow> env" where
  "fetch_not_ok status body parsed =
     calm_env\<lparr>shim_fetch := \<lambda>u opts.
                 Inr \<lparr>resp_ok = False, resp_statusText = JStr status,
                      resp_text = Inr (JStr body)\<rparr>,
               parser_parse := \<lambda>v. Returns parsed\<rparr>"

text \<open>The field that \<^verbatim>\<open>hasErrorCode_\<close> ends up asking: the first truthy one of
  \<^verbatim>\<open>name\<close>, \<^verbatim>\<open>code\<close>, \<^verbatim>\<open>Code\<close>; and the values that have an \<^verbatim>\<open>indexOf\<close>.\<close>

definition deciding_field :: "jsval \<Rightarrow> jsval" where
  "deciding_field error =
     (if truthy (field error ''name'') then field error ''name''
      else if truthy (field error ''code'') then field error ''code''
      else if truthy (field error ''Code'') then field error ''Code''
      else JUndefined)"

fun has_indexOf :: "jsval \<Rightarrow> bool" where
  "has_indexOf (JStr s) = True"
| "has_indexOf (JArr xs) = True"
| "has_indexOf v = False"

text \<open>The number of separators a key ends in.\<close>

definition trailing_seps :: "string \<Rightarrow> nat" where
  "trailing_seps s = length (takeWhile (\<lambda>c. c = CHR ''/'') (rev s))"





section \<open>The error classifier\<close>

lemma field_falsy: "\<not> truthy v \<Longrightarrow> field v k = JUndefined"
  by (cases v) simp_all

lemma indexOf_cases: "indexOf v pat = Throws TypeError \<or> (\<exists>i. indexOf v pat = Returns i)"
  by (cases v) simp_all

lemma indexOf_has: "has_indexOf v \<Longrightarrow> \<exists>i. indexOf v pat = Returns i"
  by (cases v) simp_all

lemma indexOf_has_not: "\<not> has_indexOf v \<Longrightarrow> indexOf v pat = Throws TypeError"
  by (cases v) simp_all

lemma hasErrorCode_deciding:
  "hasErrorCode error code =
     (if truthy (deciding_field error)
      then obind (indexOf (deciding_field error) code) (\<lambda>i. Returns (i \<ge> 0))
      else Returns False)"
  by (simp add: hasErrorCode_def deciding_field_def field_falsy)

lemma hasErrorCode_cases:
  "hasErrorCode error code = Returns True \<or> hasErrorCode error code = Returns False
   \<or> hasErrorCode error code = Throws TypeError"
  using indexOf_cases [of "deciding_field error" code]
  by (auto simp: hasErrorCode_deciding obind_def)

text \<open>Only the first truthy field is asked: a failure named \<^verbatim>\<open>S3Error\<close> whose
  \<^verbatim>\<open>code\<close> is \<^verbatim>\<open>NotFound\<close> does not match \<^verbatim>\<open>NotFound\<close>. And the match is that the
  code occurs in the field, not that the two are equal.\<close>

lemma hasErrorCode_first_truthy_field_only:
  "hasErrorCode (JObj [(''name'', JStr ''S3Error''), (''code'', JStr ''NotFound'')]) ''NotFound''
     = Returns False"
  by (simp add: hasErrorCode_def obind_def)

lemma hasErrorCode_substring:
  "hasErrorCode (JObj [(''code'', JStr ''XNotFoundY'')]) ''NotFound'' = Returns True"
  by (simp add: hasErrorCode_def obind_def)

text \<open>
  C8, as stated: for every failure value of any shape, also one that carries arbitrary
  \<^verbatim>\<open>name\<close>, \<^verbatim>\<open>code\<close> or \<^verbatim>\<open>Code\<close> fields, the classifier returns a boolean and does
  not throw. It fails on a failure whose \<^verbatim>\<open>name\<close> is the number 404: the number passes
  the test \<^verbatim>\<open>if (error.name)\<close>, it has no \<^verbatim>\<open>indexOf\<close>, and the call throws a TypeError.
\<close>

theorem hasErrorCode_number_name_throws:
  "hasErrorCode (JObj [(''name'', JNum 404)]) ''NotFound'' = Throws TypeError"
  by (simp add: hasErrorCode_def obind_def)

text \<open>
  C8, amended: the classifier returns a boolean, and does not throw, on every failure
  value whose first truthy field among \<^verbatim>\<open>name\<close>, \<^verbatim>\<open>code\<close>, \<^verbatim>\<open>Code\<close> is a string (or an
  array), and on every value that has no truthy one of them; the latter, which
  includes \<^verbatim>\<open>null\<close>, \<^verbatim>\<open>undefined\<close> and a value with none of the recognised fields,
  matches no error code. When the first truthy field is anything else (a number, a
  boolean, a date, an object), the classifier throws a TypeError.
\<close>

theorem hasErrorCode_returns_or_throws:
  "(\<not> truthy (deciding_field error) \<or> has_indexOf (deciding_field error)
      \<longrightarrow> (\<exists>b. hasErrorCode error code = Returns b))
   \<and> (\<not> truthy (field error ''name'') \<and> \<not> truthy (field error ''code'')
        \<and> \<not> truthy (field error ''Code'')
      \<longrightarrow> hasErrorCode error code = Returns False)
   \<and> (truthy (deciding_field error) \<and> \<not> has_indexOf (deciding_field error)
      \<longrightarrow> hasErrorCode error code = Throws TypeError)"
proof (intro conjI impI)
  assume "\<not> truthy (deciding_field error) \<or> has_indexOf (deciding_field error)"
  then show "\<exists>b. hasErrorCode error code = Returns b"
    using indexOf_has [of "deciding_field error" code]
    by (auto simp: hasErrorCode_deciding obind_def)
next
  assume "\<not> truthy (field error ''name'') \<and> \<not> truthy (field error ''code'')
          \<and> \<not> truthy (field error ''Code'')"
  then show "hasErrorCode error code = Returns False"
    by (simp add: hasErrorCode_def)
next
  assume "truthy (deciding_field error) \<and> \<not> has_indexOf (deciding_field error)"
  then show "hasErrorCode error code = Throws TypeError"
    by (simp add: hasErrorCode_deciding obind_def indexOf_has_not)
qed

theorem hasErrorCode_returns_or_throws_witness:
  "has_indexOf (deciding_field (JObj [(''code'', JStr ''NoSuchKey'')]))
   \<and> hasErrorCode (JObj [(''code'', JStr ''NoSuchKey'')]) ''NoSuchKey'' = Returns True
   \<and> hasErrorCode JUndefined ''NoSuchKey'' = Returns False
   \<and> hasErrorCode (JObj [(''message'', JStr ''socket hang up'')]) ''NoSuchKey'' = Returns False
   \<and> truthy (deciding_field (JObj [(''Code'', JNum 123)]))
   \<and> hasErrorCode (JObj [(''Code'', JNum 123)]) ''NoSuchKey'' = Throws TypeError"
  using hasErrorCode_returns_or_throws [of "JObj [(''code'', JStr ''NoSuchKey'')]" "''NoSuchKey''"]
    hasErrorCode_returns_or_throws [of "JObj [(''message'', JStr ''socket hang up'')]" "''NoSuchKey''"]
    hasErrorCode_returns_or_throws [of "JObj [(''Code'', JNum 123)]" "''NoSuchKey''"]
  by (simp add: deciding_field_def hasErrorCode_def obind_def)

section \<open>Path normalisation\<close>

lemma snd_list:
  "snd (list env p) =
     [ListObjectsV2 (bucket env)
        (if makePath p \<noteq> [] \<and> last (makePath p) \<noteq> CHR ''/''
         then makePath p @ ''/'' else makePath p) True []]"
proof (cases "makePath p = []")
  case True
  then show ?thesis by (simp add: list_def Let_def)
next
  case False
  then have "makePath p ! (length (makePath p) - 1) = last (makePath p)"
    by (simp add: last_conv_nth)
  with False show ?thesis by (simp add: list_def Let_def)
qed

lemma trailing_seps_snoc: "trailing_seps (p @ ''/'') = Suc (trailing_seps p)"
  by (simp add: trailing_seps_def)

lemma trailing_seps_0: "p \<noteq> [] \<Longrightarrow> last p \<noteq> CHR ''/'' \<Longrightarrow> trailing_seps p = 0"
  by (cases p rule: rev_cases) (simp_all add: trailing_seps_def)

text \<open>
  C7, as stated: for every non-empty path the prefix that \<^verbatim>\<open>list\<close> passes to the
  listing operation ends in exactly one separator. For the path \<^verbatim>\<open>a//\<close> the prefix
  is \<^verbatim>\<open>a//\<close>, which ends in two.
\<close>

theorem list_prefix_keeps_trailing_separators:
  "snd (list calm_env (Some ''a//'')) = [ListObjectsV2 ''notes'' ''a//'' True []]
   \<and> trailing_seps ''a//'' = 2"
  by (simp add: snd_list calm_env_def trailing_seps_def)

text \<open>
  C7, amended: path normalisation maps the absent and the empty path to the empty key;
  for every non-empty path \<open>p\<close> the prefix that \<^verbatim>\<open>list(p)\<close> passes to the listing
  operation ends in a separator: it is \<open>p\<close> itself when \<open>p\<close> already ends in one (the
  separators \<open>p\<close> ends in are kept, however many), and \<open>p\<close> followed by one separator
  otherwise, which then ends in exactly one.
\<close>

theorem list_prefix_ends_in_separator:
  "makePath None = [] \<and> makePath (Some []) = []
   \<and> (p \<noteq> [] \<longrightarrow>
        snd (list env (Some p))
          = [ListObjectsV2 (bucket env) (if last p = CHR ''/'' then p else p @ ''/'') True []]
        \<and> last (if last p = CHR ''/'' then p else p @ ''/'') = CHR ''/''
        \<and> trailing_seps (if last p = CHR ''/'' then p else p @ ''/'')
            = (if last p = CHR ''/'' then trailing_seps p else 1))"
  by (simp add: snd_list trailing_seps_snoc trailing_seps_0)

theorem list_prefix_ends_in_separator_witness:
  "''a/b'' \<noteq> []
   \<and> snd (list calm_env (Some ''a/b'')) = [ListObjectsV2 ''notes'' ''a/b/'' True []]
   \<and> trailing_seps ''a/b/'' = 1"
  using list_prefix_ends_in_separator [of "''a/b''" calm_env]
  by (simp add: calm_env_def trailing_seps_def)

section \<open>The Stat Translator\<close>

lemma basename_returns: "p \<noteq> [] \<Longrightarrow> \<exists>b. basename p = Inr b"
  by (simp add: basename_def)

text \<open>
  C9, as stated: for every metadata value and every path the translator does not
  raise. Its first statement is \<^verbatim>\<open>basename(path)\<close>, outside any \<^verbatim>\<open>try\<close>, and the
  helper throws on the empty path: so does the translator.
\<close>

theorem metadataToStat_empty_path_raises:
  "metadataToStat basename (date_getTime calm_env) 5000 JUndefined []
     = Inl (JObj [(''name'', JStr ''Error''), (''message'', JStr ''Path is empty'')])"
  by (simp add: metadataToStat_def basename_def)

text \<open>
  C9, amended: for every metadata value, and every path on which \<^verbatim>\<open>basename\<close>
  returns (with the helper of the application: every path that is not empty), the
  translator does not raise and returns a File Status whose path is what the helper
  returned, in which \<open>isDeleted\<close> holds exactly when the metadata is absent (falsy,
  the test \<^verbatim>\<open>if (md)\<close>), \<open>updated_time\<close> is the current time whenever the metadata
  is absent, and \<open>isDir\<close> is false. On a path on which \<^verbatim>\<open>basename\<close> throws (the
  empty path), the translator throws the same.
\<close>

theorem metadataToStat_status:
  "(\<forall>b. bn p = Inr b \<longrightarrow>
      (\<exists>st. metadataToStat bn getTime now md p = Inr st
         \<and> path st = b
         \<and> isDeleted st = (\<not> truthy md)
         \<and> (\<not> truthy md \<longrightarrow> updated_time st = Some now)
         \<and> isDir st = False))
   \<and> (\<forall>e. bn p = Inl e \<longrightarrow> metadataToStat bn getTime now md p = Inl e)
   \<and> (p \<noteq> [] \<longrightarrow> (\<exists>b. basename p = Inr b))
   \<and> (\<exists>e. basename [] = Inl e)"
  by (simp add: metadataToStat_def basename_def Let_def)

theorem metadataToStat_status_witness:
  "basename ''a/b.md'' = Inr ''b.md''
   \<and> \<not> truthy JUndefined
   \<and> metadataToStat basename (date_getTime calm_env) 5000 JUndefined ''a/b.md''
       = Inr \<lparr>path = ''b.md'', updated_time = Some 5000, isDeleted = True, isDir = False\<rparr>
   \<and> metadataToStat basename (date_getTime calm_env) 5000
        (JObj [(''lastModified'', JDate 1000)]) ''a/b.md''
       = Inr \<lparr>path = ''b.md'', updated_time = Some 1000, isDeleted = False, isDir = False\<rparr>
   \<and> basename [] = Inl (JObj [(''name'', JStr ''Error''), (''message'', JStr ''Path is empty'')])
   \<and> metadataToStat basename (date_getTime calm_env) 5000
        (JObj [(''lastModified'', JDate 1000)]) []
       = Inl (JObj [(''name'', JStr ''Error''), (''message'', JStr ''Path is empty'')])"
  using metadataToStat_status [of basename "''a/b.md''" "date_getTime calm_env" 5000 JUndefined]
    metadataToStat_status [of basename "''a/b.md''" "date_getTime calm_env" 5000
      "JObj [(''lastModified'', JDate 1000)]"]
    metadataToStat_status [of basename "[]" "date_getTime calm_env" 5000
      "JObj [(''lastModified'', JDate 1000)]"]
  by (simp add: metadataToStat_def basename_def calm_env_def)

text \<open>In a listing every item has the time of the clock, whatever the store reports
  (the names of a listing are not empty).\<close>

lemma metadataToStats_updated_time:
  "\<forall>m \<in> set names. m \<noteq> [] \<Longrightarrow>
   \<exists>sts. metadataToStats basename getTime clk i names = Inr sts
     \<and> map updated_time sts = map (\<lambda>k. Some (clk k)) [i ..< i + length names]"
proof (induction names arbitrary: i)
  case Nil
  then show ?case by simp
next
  case (Cons m names)
  from Cons.prems have "m \<noteq> []" by simp
  then obtain st where st: "metadataToStat basename getTime (clk i) (JStr m) m = Inr st"
    and t: "updated_time st = Some (clk i)"
    by (simp add: metadataToStat_def basename_def Let_def)
  from Cons.prems have "\<forall>m \<in> set names. m \<noteq> []" by simp
  then obtain sts where out: "metadataToStats basename getTime clk (Suc i) names = Inr sts"
    and ts: "map updated_time sts = map (\<lambda>k. Some (clk k)) [Suc i ..< Suc i + length names]"
    using Cons.IH [of "Suc i"] by blast
  have "[i ..< i + length (m # names)] = i # [Suc i ..< Suc i + length names]"
    by (simp add: upt_conv_Cons del: upt_Suc)
  with st t out ts show ?case
    by (simp del: upt_Suc)
qed

text \<open>
  C4: the items of \<^verbatim>\<open>list(path)\<close> carry the last-modified time that the store
  reports. The code does not do this: \<^verbatim>\<open>listObjects\<close> keeps the name of each object
  only, \<^verbatim>\<open>metadataToStats_\<close> hands the name to the translator as metadata, a string
  has no \<^verbatim>\<open>lastModified\<close>, and every item gets the time of the clock. Here the store
  reports the times 1000 and 2000, and the clock shows 5000 and 5001.
\<close>

theorem list_updated_time_is_clock:
  "fst (list (store_listing [\<lparr>obj_name = ''a/1'', obj_lastModified = JDate 1000\<rparr>,
                             \<lparr>obj_name = ''a/2'', obj_lastModified = JDate 2000\<rparr>])
          (Some ''a''))
     = Returns \<lparr>items =
         [\<lparr>path = ''1'', updated_time = Some 5000, isDeleted = False, isDir = False\<rparr>,
          \<lparr>path = ''2'', updated_time = Some 5001, isDeleted = False, isDir = False\<rparr>],
         hasMore = False, listing_context = JObj []\<rparr>"
  by (simp add: list_def Let_def listObjects_def store_listing_def calm_env_def
      metadataToStat_def basename_def)

section \<open>stat\<close>

lemma ignoring_cases:
  "(hasErrorCode error code = Returns True \<longrightarrow> ignoring code error = Returns ())
   \<and> (hasErrorCode error code = Returns False \<longrightarrow> ignoring code error = Throws (Value error))
   \<and> (hasErrorCode error code = Throws TypeError \<longrightarrow> ignoring code error = Throws TypeError)"
  by (simp add: ignoring_def obind_def)


text \<open>What the \<^verbatim>\<open>catch\<close> block of \<^verbatim>\<open>stat\<close> does with a failure of the lookup, by
  the answer of the classifier: the absent result when it finds \<^verbatim>\<open>NotFound\<close>, the
  failure itself when it does not, its TypeError when it throws.\<close>

lemma stat_catch_cases:
  assumes "api_statObject env (bucket env) (makePath (Some p)) = (error, response)"
    and "truthy error"
  shows "(hasErrorCode error ''NotFound'' = Returns True \<longrightarrow> fst (stat env p) = Returns None)
   \<and> (hasErrorCode error ''NotFound'' = Returns False
        \<longrightarrow> fst (stat env p) = Throws (Value error))
   \<and> (hasErrorCode error ''NotFound'' = Throws TypeError
        \<longrightarrow> fst (stat env p) = Throws TypeError)"
  using assms ignoring_cases [of error "''NotFound''"]
  by (auto simp: stat_def stat_catch_def promisify_def obind_def)

lemma stat_code_NotFound_absent:
  "fst (stat (stat_fails_with (JObj [(''code'', JStr ''NotFound'')])) ''a/b.md'') = Returns None"
  by (simp add: stat_def stat_catch_def promisify_def stat_fails_with_def calm_env_def
      ignoring_def hasErrorCode_def obind_def)

lemma stat_number_name_raises_TypeError:
  "fst (stat (stat_fails_with (JObj [(''name'', JNum 404)])) ''a/b.md'') = Throws TypeError"
  by (simp add: stat_def stat_catch_def promisify_def stat_fails_with_def calm_env_def
      ignoring_def hasErrorCode_def obind_def)

text \<open>
  C5: when the store reports the key as not-found, \<^verbatim>\<open>stat\<close> returns the absent
  result and does not raise. The code does not do this for a failure that has a name:
  the lookup fails with an error object named \<^verbatim>\<open>S3Error\<close> whose \<^verbatim>\<open>code\<close> is
  \<^verbatim>\<open>NotFound\<close>; the classifier asks the first truthy field only, the name, and
  never reads the code (\<open>hasErrorCode_first_truthy_field_only\<close>); the \<^verbatim>\<open>catch\<close>
  block rethrows, and \<^verbatim>\<open>stat\<close> raises the failure. The same failure without a
  name gives the absent result (\<open>stat_code_NotFound_absent\<close>).
\<close>

theorem stat_raises_on_named_NotFound:
  "fst (stat (stat_fails_with (JObj [(''name'', JStr ''S3Error''),
                                     (''message'', JStr ''Not Found''),
                                     (''code'', JStr ''NotFound'')])) ''a/b.md'')
     = Throws (Value (JObj [(''name'', JStr ''S3Error''),
                            (''message'', JStr ''Not Found''),
                            (''code'', JStr ''NotFound'')]))"
  by (simp add: stat_def stat_catch_def promisify_def stat_fails_with_def calm_env_def
      ignoring_def hasErrorCode_def obind_def)

section \<open>get\<close>

text \<open>The \<^verbatim>\<open>catch\<close> block on a failure that is not a FetchError and carries a truthy
  \<^verbatim>\<open>output\<close>, when the parser and the three classifications return: the three codes
  it handles, and what is left.\<close>

lemma get_catch_handled:
  assumes "get_field error ''name'' = Returns n" and "n \<noteq> JStr ''FetchError''"
    and "truthy (field error ''output'')"
    and "parser_parse env (field error ''output'') = Returns parsed"
    and "get_field parsed ''Error'' = Returns perr"
    and "hasErrorCode perr ''AuthorizationHeaderMalformed'' = Returns m"
    and "hasErrorCode perr ''NoSuchKey'' = Returns k"
    and "hasErrorCode perr ''AccessDenied'' = Returns d"
  shows "get_catch env error =
     (if m then Throws (Value (field error ''output''))
      else if k then Returns JNull
      else if d then Throws (JoplinError ''Do not have proper permissions to Bucket''
                                          ''rejectedByTarget'')
      else Returns JUndefined)"
  using assms by (simp add: get_catch_def obind_def)

text \<open>
  C1: a failure of the secondary fetch that carries a response body whose parsed
  shape is none of the three handled codes is rethrown as it is. The code does not
  rethrow it. The fetch answers 500 with the body
  \<^verbatim>\<open><Error><Code>InternalError</Code></Error>\<close>; the \<^verbatim>\<open>try\<close> block throws
  \<^verbatim>\<open>{ name, output }\<close>; in the \<^verbatim>\<open>catch\<close> block \<^verbatim>\<open>error.output\<close> is truthy, none of
  the three tests holds, and the only \<^verbatim>\<open>throw\<close> left stands in the \<^verbatim>\<open>else\<close> of
  \<^verbatim>\<open>if (error.output)\<close>: the method resolves with \<^verbatim>\<open>undefined\<close>.
\<close>

theorem get_unhandled_body_resolves_undefined:
  "get (fetch_not_ok ''Internal Server Error'' ''<Error><Code>InternalError</Code></Error>''
          (JObj [(''Error'', JObj [(''Code'', JStr ''InternalError'')])]))
       (Some ''a/b.md'') JUndefined
     = (Returns JUndefined,
        [PresignedUrl ''GET'' ''notes'' ''a/b.md'' 3600,
         Fetch (JStr ''https://minio.test/notes/a/b.md'') (JObj [])])"
  by (simp add: get_def get_try_def get_catch_def Let_def fetch_not_ok_def calm_env_def
      presignedUrl_def promisify_def hasErrorCode_def obind_def)

text \<open>
  C10: when the options do not ask for a file (\<^verbatim>\<open>target\<close> is not \<^verbatim>\<open>'file'\<close>) and
  name a response format (a truthy \<^verbatim>\<open>responseFormat\<close>) other than \<^verbatim>\<open>'text'\<close>,
  \<^verbatim>\<open>get\<close> asks for the presigned URL and makes no other call; once it has the URL
  it returns \<^verbatim>\<open>null\<close>.
\<close>

theorem get_other_format_fetches_nothing:
  assumes "field options ''target'' \<noteq> JStr ''file''"
    and "truthy (field options ''responseFormat'')"
    and "field options ''responseFormat'' \<noteq> JStr ''text''"
  shows "snd (get env p options) = [PresignedUrl ''GET'' (bucket env) (makePath p) 3600]
   \<and> (\<forall>s3Url. presignedUrl env (makePath p) = Inr s3Url
          \<longrightarrow> fst (get env p options) = Returns JNull)"
proof -
  from assms(2) have "truthy options"
    by (cases "truthy options") (simp_all add: field_falsy)
  with assms show ?thesis
    by (auto simp: get_def get_try_def Let_def split: sum.splits)
qed

theorem get_other_format_fetches_nothing_witness:
  "field (JObj [(''responseFormat'', JStr ''arrayBuffer'')]) ''target'' \<noteq> JStr ''file''
   \<and> truthy (field (JObj [(''responseFormat'', JStr ''arrayBuffer'')]) ''responseFormat'')
   \<and> field (JObj [(''responseFormat'', JStr ''arrayBuffer'')]) ''responseFormat'' \<noteq> JStr ''text''
   \<and> presignedUrl calm_env (makePath (Some ''a/b.md''))
       = Inr (JStr ''https://minio.test/notes/a/b.md'')
   \<and> get calm_env (Some ''a/b.md'') (JObj [(''responseFormat'', JStr ''arrayBuffer'')])
       = (Returns JNull, [PresignedUrl ''GET'' ''notes'' ''a/b.md'' 3600])"
  using get_other_format_fetches_nothing [of "JObj [(''responseFormat'', JStr ''arrayBuffer'')]"
      calm_env "Some ''a/b.md''"]
  by (simp add: calm_env_def presignedUrl_def promisify_def prod_eq_iff)

section \<open>batchDeletes\<close>















section \<open>move\<close>




section \<open>clearRoot\<close>

lemma content_names_replicate:
  "content_names (replicate n (JObj [(''name'', v)])) = Returns (replicate n v)"
  by (induction n) (simp_all add: obind_def)

text \<open>Whatever the client and the bucket: the promise of \<^verbatim>\<open>clearRoot\<close> stays
  pending, and its only call is the listing.\<close>

lemma clearRoot_pending:
  "clearRoot env = (None, [ListObjectsV2 (bucket env) [] True []])"
  by (simp add: clearRoot_def listRecursive_def)

text \<open>The lines after the \<^verbatim>\<open>await\<close>, had the listing resolved with 2500 objects
  under \<^verbatim>\<open>Contents\<close>: one call of \<^verbatim>\<open>removeObjects\<close> with the 2500 names, not cut
  into batches and not wrapped as \<^verbatim>\<open>{Key: name}\<close>.\<close>

lemma clearRoot_after_listing_one_call:
  "clearRoot_after_listing calm_env
     (JObj [(''Contents'', JArr (replicate 2500 (JObj [(''name'', JStr ''k'')])))])
   = (Returns (), [RemoveObjects ''notes'' (replicate 2500 (JStr ''k''))])"
  by (simp add: clearRoot_after_listing_def calm_env_def obind_def content_names_replicate)

text \<open>
  C2: on a bucket of N objects \<^verbatim>\<open>clearRoot\<close> lists every key, issues
  \<open>ceil (N / 1000)\<close> batch-delete calls and leaves no object. The code does not get
  that far. It hands \<^verbatim>\<open>listObjectsV2\<close> a callback as a fifth argument and waits for
  it; the client answers through the stream it returns, as \<^verbatim>\<open>listObjects\<close> of the
  same driver knows (line 60), so the callback is never called and the promise never
  settles. On a bucket of 2500 objects: the listing is asked for, \<^verbatim>\<open>clearRoot\<close>
  never resolves, and no delete call is made, where the claim has three.
\<close>

theorem clearRoot_never_deletes:
  "clearRoot (store_listing (replicate 2500 \<lparr>obj_name = ''k'', obj_lastModified = JDate 1000\<rparr>))
     = (None, [ListObjectsV2 ''notes'' [] True []])"
  by (simp add: clearRoot_def listRecursive_def store_listing_def calm_env_def)

end
